theory Spec2Isabelle
  imports Main "HOL-Library.Sublist" "HOL-Library.AList"
begin

section \<open>Helm chart dependency resolution (class \<open>Chart\<close> of \<open>python/k8s.py\<close>)\<close>

text \<open>
  The class \<open>Chart\<close> reconciles the dependencies a helm chart declares in its
  \<open>Chart.yaml\<close> with caller-supplied source charts, archives already present in the
  chart's \<open>charts/\<close> directory, and \<open>helm dependency update\<close>. All of its work is done
  on the file system, so the model carries the file system as a value.
\<close>

subsection \<open>Manifests, files and directories\<close>

text \<open>
  The dictionaries read from \<open>Chart.yaml\<close>: a dependency entry has the keys \<open>name\<close> and
  \<open>version\<close>; the manifest itself has those and \<open>dependencies\<close>
  (\<open>index.get('dependencies', [])\<close>, so an absent key is the empty list).
\<close>

record metadata =
  yaml_name :: string
  yaml_version :: string

record manifest = metadata +
  yaml_dependencies :: "metadata list"

text \<open>
  A file system node. \<open>Yaml\<close> is a parsed manifest file, \<open>Tgz\<close> a gzipped tar archive
  with its top-level members, \<open>Blob\<close> any other file, \<open>Dir\<close> a directory with its
  entries in listing order.
\<close>

datatype node =
    Yaml manifest
  | Tgz "(string \<times> node) list"
  | Blob string
  | Dir "(string \<times> node) list"

type_synonym path = "string list"

datatype error =
    UsageError
  | NotImplementedError
  | FileNotFoundError
  | NotADirectoryError
  | FileExistsError
  | IsADirectoryError
  | ReadError
  | YAMLError
  | HelmError
  | RecursionError

fun lookup :: "node \<Rightarrow> path \<Rightarrow> node option" where
  "lookup n [] = Some n"
| "lookup (Dir es) (k # p) = (case map_of es k of None \<Rightarrow> None | Some c \<Rightarrow> lookup c p)"
| "lookup _ (k # p) = None"

definition exists :: "node \<Rightarrow> path \<Rightarrow> bool" where
  "exists root p = (lookup root p \<noteq> None)"

fun is_dir :: "node \<Rightarrow> bool" where
  "is_dir (Dir es) = True"
| "is_dir _ = False"

text \<open>\<open>Path.iterdir\<close>: the names in a directory; it raises on a missing path or a file.\<close>

definition iterdir :: "node \<Rightarrow> path \<Rightarrow> error + string list" where
  "iterdir root p =
     (case lookup root p of
        None \<Rightarrow> Inl FileNotFoundError
      | Some (Dir es) \<Rightarrow> Inr (map fst es)
      | Some _ \<Rightarrow> Inl NotADirectoryError)"

text \<open>Apply a change to the node found at a path, rebuilding the directories above it.\<close>

fun modify :: "path \<Rightarrow> (node \<Rightarrow> error + node) \<Rightarrow> node \<Rightarrow> error + node" where
  "modify [] f n = f n"
| "modify (k # p) f (Dir es) =
     (case map_of es k of
        None \<Rightarrow> Inl FileNotFoundError
      | Some c \<Rightarrow> (case modify p f c of
                    Inl e \<Rightarrow> Inl e
                  | Inr c' \<Rightarrow> Inr (Dir (AList.update k c' es))))"
| "modify (k # p) f _ = Inl NotADirectoryError"

fun unlink_entry :: "string \<Rightarrow> node \<Rightarrow> error + node" where
  "unlink_entry k (Dir es) =
     (if map_of es k = None then Inl FileNotFoundError else Inr (Dir (AList.delete k es)))"
| "unlink_entry k _ = Inl NotADirectoryError"

fun write_entry :: "string \<Rightarrow> node \<Rightarrow> node \<Rightarrow> error + node" where
  "write_entry k v (Dir es) = Inr (Dir (AList.update k v es))"
| "write_entry k v _ = Inl NotADirectoryError"

text \<open>
  \<open>clk.lib.rm\<close>: \<open>shutil.rmtree\<close> on a directory, \<open>os.unlink\<close> otherwise; either way the
  entry disappears from its parent, and a missing path raises.
\<close>

definition rm :: "path \<Rightarrow> node \<Rightarrow> error + node" where
  "rm p root = (if p = [] then Inl NotADirectoryError
                else modify (butlast p) (unlink_entry (last p)) root)"

text \<open>Create or replace the entry at a path whose parent directory exists.\<close>

definition put :: "path \<Rightarrow> node \<Rightarrow> node \<Rightarrow> error + node" where
  "put p v root = (if p = [] then Inl FileExistsError
                   else modify (butlast p) (write_entry (last p) v) root)"

text \<open>
  \<open>clk.lib.makedirs\<close>: nothing when the path exists, else \<open>os.makedirs\<close>, which creates the
  missing directories and raises when a component on the way is a file.
\<close>

fun makedirs :: "path \<Rightarrow> node \<Rightarrow> error + node" where
  "makedirs [] n = Inr n"
| "makedirs (k # p) (Dir es) =
     (case map_of es k of
        None \<Rightarrow> (case makedirs p (Dir []) of
                   Inl e \<Rightarrow> Inl e
                 | Inr c' \<Rightarrow> Inr (Dir (es @ [(k, c')])))
      | Some c \<Rightarrow> (case makedirs p c of
                    Inl e \<Rightarrow> Inl e
                  | Inr c' \<Rightarrow> Inr (Dir (AList.update k c' es))))"
| "makedirs (k # p) _ = Inl NotADirectoryError"

subsection \<open>The class \<open>Chart\<close>\<close>

text \<open>\<open>str.startswith\<close> and \<open>str.endswith\<close>.\<close>

definition startswith :: "string \<Rightarrow> string \<Rightarrow> bool" where
  "startswith s p = prefix p s"

definition endswith :: "string \<Rightarrow> string \<Rightarrow> bool" where
  "endswith s p = suffix p s"

text \<open>\<open>compute_name\<close>: \<open>f'{metadata["name"]}-{metadata["version"]}'\<close>.\<close>

definition compute_name :: "'a metadata_scheme \<Rightarrow> string" where
  "compute_name md = yaml_name md @ ''-'' @ yaml_version md"

text \<open>
  The fields \<open>__init__\<close> sets. They are read once, at construction, and the object is
  not refreshed when the directory changes afterwards.
\<close>

record chart =
  location :: path
  subcharts_dir :: path
  index_path :: path
  index :: manifest
  name :: string
  dependencies :: "metadata list"
  dependencies_fullnames :: "string list"

text \<open>
  \<open>Chart.__init__\<close>: a \<open>click.UsageError\<close> when \<open>Chart.yaml\<close> does not exist; a
  directory of that name fails in \<open>open\<close>, and a file that does not parse as a manifest
  fails in \<open>yaml.load\<close> or in \<open>compute_name\<close>.
\<close>

definition Chart :: "node \<Rightarrow> path \<Rightarrow> error + chart" where
  "Chart root loc =
     (case lookup root (loc @ [''Chart.yaml'']) of
        None \<Rightarrow> Inl UsageError
      | Some (Yaml idx) \<Rightarrow>
          Inr \<lparr> location = loc,
                subcharts_dir = loc @ [''charts''],
                index_path = loc @ [''Chart.yaml''],
                index = idx,
                name = compute_name idx,
                dependencies = yaml_dependencies idx,
                dependencies_fullnames = map compute_name (yaml_dependencies idx) \<rparr>
      | Some (Dir es) \<Rightarrow> Inl IsADirectoryError
      | Some _ \<Rightarrow> Inl YAMLError)"

text \<open>\<open>match_to_dependencies\<close>: the declared dependencies that start with \<open>name\<close>.\<close>

definition match_to_dependencies :: "chart \<Rightarrow> string \<Rightarrow> string list" where
  "match_to_dependencies self nm =
     filter (\<lambda>dependency. startswith dependency nm) (dependencies_fullnames self)"

text \<open>
  \<open>find_one_source\<close>: the sources whose \<open>name\<close> attribute is a prefix of the dependency;
  more than one raises \<open>NotImplementedError\<close>, none gives \<open>None\<close>. The warning logged
  when the match is not an exact one has no effect on the result.
\<close>

definition find_one_source :: "string \<Rightarrow> chart list \<Rightarrow> error + chart option" where
  "find_one_source dependency subchart_sources =
     (let match = filter (\<lambda>chart. startswith dependency (name chart)) subchart_sources in
      if length match > 1 then Inl NotImplementedError
      else if match = [] then Inr None
      else Inr (Some (hd match)))"

text \<open>
  \<open>clean_dependencies\<close>: every entry of the subcharts directory whose name ends in
  \<open>.tgz\<close> and whose name without that extension starts no declared dependency is
  removed. \<open>iterdir\<close> lists the directory once, before the first removal.
\<close>

definition stale :: "chart \<Rightarrow> string \<Rightarrow> bool" where
  "stale self file =
     (endswith file ''.tgz''
      \<and> match_to_dependencies self (take (length file - length ''.tgz'') file) = [])"

fun clean_loop :: "chart \<Rightarrow> string list \<Rightarrow> node \<Rightarrow> (error + unit) \<times> node" where
  "clean_loop self [] root = (Inr (), root)"
| "clean_loop self (file # files) root =
     (if stale self file
      then (case rm (subcharts_dir self @ [file]) root of
              Inl e \<Rightarrow> (Inl e, root)
            | Inr root' \<Rightarrow> clean_loop self files root')
      else clean_loop self files root)"

definition clean_dependencies :: "chart \<Rightarrow> node \<Rightarrow> (error + unit) \<times> node" where
  "clean_dependencies self root =
     (case iterdir root (subcharts_dir self) of
        Inl e \<Rightarrow> (Inl e, root)
      | Inr files \<Rightarrow> clean_loop self files root)"

subsection \<open>Substituting sources in an extracted chart\<close>

text \<open>
  \<open>clk.lib.copy\<close> of a source's directory: what is copied is what is at the source's
  location when the copy is made.
\<close>

definition copy_from :: "node \<Rightarrow> path \<Rightarrow> error + node" where
  "copy_from root src = (case lookup root src of None \<Rightarrow> Inl FileNotFoundError | Some n \<Rightarrow> Inr n)"

text \<open>
  \<open>resolve_subcharts\<close> is only called on a chart that \<open>update_dependencies\<close> has just
  extracted into a fresh temporary directory, and on the subcharts below it. No source
  lives in that directory, so the model keeps it apart: \<open>root\<close> is the file system the
  sources are read from, and the third argument is the directory of \<open>self\<close>, returned
  as the method leaves it (also when it raises). \<open>resolve_entries\<close> is the \<open>for\<close> loop
  over \<open>self.subcharts_dir.iterdir()\<close>, with \<open>updated\<close> as it stands.
\<close>

function (sequential) resolve_subcharts :: "node \<Rightarrow> chart list \<Rightarrow> node \<Rightarrow> (error + bool) \<times> node"
  and resolve_entries ::
    "node \<Rightarrow> chart list \<Rightarrow> (string \<times> node) list \<Rightarrow> bool \<Rightarrow> (error + bool) \<times> (string \<times> node) list"
where
  "resolve_subcharts root subchart_sources (Dir es) =
     (case map_of es ''charts'' of
        None \<Rightarrow> (Inr False, Dir es)
      | Some (Dir cs) \<Rightarrow>
          (case resolve_entries root subchart_sources cs False of
             (r, cs') \<Rightarrow> (r, Dir (AList.update ''charts'' (Dir cs') es)))
      | Some _ \<Rightarrow> (Inl NotADirectoryError, Dir es))"
| "resolve_subcharts root subchart_sources (Yaml v) = (Inr False, Yaml v)"
| "resolve_subcharts root subchart_sources (Tgz v) = (Inr False, Tgz v)"
| "resolve_subcharts root subchart_sources (Blob v) = (Inr False, Blob v)"
| "resolve_entries root subchart_sources [] updated = (Inr updated, [])"
| "resolve_entries root subchart_sources ((k, c) # rest) updated =
     (if is_dir c then
        (case Chart c [] of
           Inl e \<Rightarrow> (Inl e, (k, c) # rest)
         | Inr subchart \<Rightarrow>
             (case find_one_source (name subchart) subchart_sources of
                Inl e \<Rightarrow> (Inl e, (k, c) # rest)
              | Inr (Some src) \<Rightarrow>
                  (case copy_from root (location src) of
                     Inl e \<Rightarrow> (Inl e, rest)
                   | Inr c' \<Rightarrow>
                       (case resolve_entries root subchart_sources rest True of
                          (r, rest') \<Rightarrow> (r, (k, c') # rest')))
              | Inr None \<Rightarrow>
                  (case resolve_subcharts root subchart_sources c of
                     (Inl e, c') \<Rightarrow> (Inl e, (k, c') # rest)
                   | (Inr u, c') \<Rightarrow>
                       (case resolve_entries root subchart_sources rest (u \<or> updated) of
                          (r, rest') \<Rightarrow> (r, (k, c') # rest')))))
      else (case resolve_entries root subchart_sources rest updated of
              (r, rest') \<Rightarrow> (r, (k, c) # rest')))"
  by pat_completeness auto
termination
proof -
  have smaller: "size c < Suc (size_list (size_prod (\<lambda>_. 0) size) es)"
    if "map_of es k = Some c" for es :: "(string \<times> node) list" and k c
    using that by (induction es) (auto split: if_splits)
  show ?thesis
    by (relation "measure (\<lambda>x. case x of
                      Inl (root, srcs, n) \<Rightarrow> size n
                    | Inr (root, srcs, cs, u) \<Rightarrow> size_list (size_prod (\<lambda>_. 0) size) cs)")
       (auto dest: smaller)
qed

subsection \<open>Packaging, extracting, fetching\<close>

text \<open>
  \<open>helm package\<close> is an external tool. What the model keeps of it: it reads the chart
  directory as it is on disk, fails when there is no readable \<open>Chart.yaml\<close> in it, and
  otherwise produces the file \<open>name-version.tgz\<close> holding the directory under a single
  top-level folder called after the chart. Helm's further checks (every entry of
  \<open>charts/\<close> must load as a chart, every declared dependency must be there) and its
  unpacking of archives found in \<open>charts/\<close> are left out; the charts packaged in the
  examples below pass these checks and hold no archives.
\<close>

definition helm_package :: "node \<Rightarrow> error + string \<times> node" where
  "helm_package chart_dir =
     (case lookup chart_dir [''Chart.yaml''] of
        Some (Yaml idx) \<Rightarrow> Inr (compute_name idx @ ''.tgz'', Tgz [(yaml_name idx, chart_dir)])
      | _ \<Rightarrow> Inl HelmError)"

text \<open>
  \<open>package\<close>: \<open>cd(directory)\<close>, then \<open>helm package self.location\<close>. The first argument
  is what is at \<open>self.location\<close> (\<open>None\<close> when nothing is), since a chart is packaged
  either from the file system or from the temporary directory.
\<close>

definition package :: "node option \<Rightarrow> path \<Rightarrow> node \<Rightarrow> error + node" where
  "package content directory root =
     (case lookup root directory of
        None \<Rightarrow> Inl FileNotFoundError
      | Some (Dir es) \<Rightarrow>
          (case content of
             None \<Rightarrow> Inl HelmError
           | Some chart_dir \<Rightarrow>
               (case helm_package chart_dir of
                  Inl e \<Rightarrow> Inl e
                | Inr (file, archive) \<Rightarrow> put (directory @ [file]) archive root))
      | Some _ \<Rightarrow> Inl NotADirectoryError)"

text \<open>
  \<open>tarfile.extractall\<close> into a directory: members are written over what is there,
  directories are merged.
\<close>

function (sequential) overlay :: "node \<Rightarrow> node \<Rightarrow> error + node"
  and extractall :: "(string \<times> node) list \<Rightarrow> (string \<times> node) list \<Rightarrow> error + (string \<times> node) list"
where
  "overlay (Dir old) (Dir members) =
     (case extractall members old of Inl e \<Rightarrow> Inl e | Inr es \<Rightarrow> Inr (Dir es))"
| "overlay (Dir old) member = Inl IsADirectoryError"
| "overlay old (Dir members) = Inl FileExistsError"
| "overlay old member = Inr member"
| "extractall [] target = Inr target"
| "extractall ((k, member) # members) target =
     (case map_of target k of
        None \<Rightarrow> extractall members (target @ [(k, member)])
      | Some old \<Rightarrow>
          (case overlay old member of
             Inl e \<Rightarrow> Inl e
           | Inr n \<Rightarrow> extractall members (AList.update k n target)))"
  by pat_completeness auto
termination
  by (relation "measure (\<lambda>x. case x of
                    Inl (old, member) \<Rightarrow> size member
                  | Inr (members, target) \<Rightarrow> size_list (size_prod (\<lambda>_. 0) size) members)")
     auto

text \<open>
  The state the resolver works on: the file system, and the manifests
  \<open>helm dependency update\<close> has been run on, oldest first.
\<close>

record world =
  fs :: node
  helm_updates :: "manifest list"

text \<open>
  \<open>helm dependency update d\<close> is external too: from the manifest written to the
  temporary directory \<open>d\<close> it either fails or leaves a listing of files in \<open>d/charts\<close>.
  It is a parameter of the model.
\<close>

type_synonym fetcher = "manifest \<Rightarrow> error + (string \<times> node) list"

text \<open>The loop that moves each generated file into \<open>self.subcharts_dir\<close>.\<close>

fun move_generated :: "chart \<Rightarrow> (string \<times> node) list \<Rightarrow> node \<Rightarrow> (error + unit) \<times> node" where
  "move_generated self [] root = (Inr (), root)"
| "move_generated self ((gd, content) # gds) root =
     (case makedirs (subcharts_dir self) root of
        Inl e \<Rightarrow> (Inl e, root)
      | Inr root1 \<Rightarrow>
          (case (if exists root1 (subcharts_dir self @ [gd])
                 then rm (subcharts_dir self @ [gd]) root1 else Inr root1) of
             Inl e \<Rightarrow> (Inl e, root1)
           | Inr root2 \<Rightarrow>
               (case put (subcharts_dir self @ [gd]) content root2 of
                  Inl e \<Rightarrow> (Inl e, root2)
                | Inr root3 \<Rightarrow> move_generated self gds root3)))"

text \<open>
  \<open>get_dependencies_with_helm\<close>: one run of \<open>helm dependency update\<close> on a copy of the
  manifest that lists only \<open>deps_to_update\<close>; the result is the set of generated file
  names (here without repetition, in listing order).
\<close>

definition get_dependencies_with_helm ::
  "fetcher \<Rightarrow> chart \<Rightarrow> metadata list \<Rightarrow> world \<Rightarrow> (error + string list) \<times> world" where
  "get_dependencies_with_helm helm self deps_to_update w =
     (let chart_to_update = (index self)\<lparr>yaml_dependencies := deps_to_update\<rparr>;
          w1 = w\<lparr>helm_updates := helm_updates w @ [chart_to_update]\<rparr>
      in case helm chart_to_update of
           Inl e \<Rightarrow> (Inl e, w1)
         | Inr listing \<Rightarrow>
             (case move_generated self (AList.clearjunk listing) (fs w1) of
                (Inl e, root) \<Rightarrow> (Inl e, w1\<lparr>fs := root\<rparr>)
              | (Inr u, root) \<Rightarrow> (Inr (map fst (AList.clearjunk listing)), w1\<lparr>fs := root\<rparr>)))"

subsection \<open>\<open>update_dependencies\<close>\<close>

text \<open>
  The second loop of \<open>update_dependencies\<close>, over \<open>generated_dependencies | to_resolve\<close>.
  Each archive is extracted below the temporary directory \<open>d\<close> (its listing is the
  fourth argument, and is gone when the \<open>with\<close> block ends), the first entry of the
  extraction directory is loaded as a chart (\<open>next(iterdir())\<close>: the listing order of the
  operating system, which the model takes to be the order of the members; an archive
  without members leaves no directory to list), and the archive is replaced by a package
  of that chart when \<open>resolve_subcharts\<close> reports a change.
\<close>

fun resolve_loop ::
  "chart \<Rightarrow> chart list \<Rightarrow> path list \<Rightarrow> (string \<times> node) list \<Rightarrow> node \<Rightarrow> (error + unit) \<times> node"
where
  "resolve_loop self subchart_sources [] d root = (Inr (), root)"
| "resolve_loop self subchart_sources (dependency_chart_location # todo) d root =
     (case lookup root dependency_chart_location of
        None \<Rightarrow> (Inl FileNotFoundError, root)
      | Some (Tgz members) \<Rightarrow>
          (case extractall members
                  (case map_of d (last dependency_chart_location) of
                     Some (Dir es) \<Rightarrow> es | _ \<Rightarrow> []) of
             Inl e \<Rightarrow> (Inl e, root)
           | Inr [] \<Rightarrow> (Inl FileNotFoundError, root)
           | Inr ((k, c) # others) \<Rightarrow>
               (case Chart c [] of
                  Inl e \<Rightarrow> (Inl e, root)
                | Inr dependency_chart \<Rightarrow>
                    (case resolve_subcharts root subchart_sources c of
                       (Inl e, c') \<Rightarrow> (Inl e, root)
                     | (Inr updated_subcharts, c') \<Rightarrow>
                         (if updated_subcharts then
                            (case rm dependency_chart_location root of
                               Inl e \<Rightarrow> (Inl e, root)
                             | Inr root1 \<Rightarrow>
                                 (case package (Some c') (subcharts_dir self) root1 of
                                    Inl e \<Rightarrow> (Inl e, root1)
                                  | Inr root2 \<Rightarrow>
                                      resolve_loop self subchart_sources todo
                                        (AList.update (last dependency_chart_location)
                                           (Dir ((k, c') # others)) d) root2))
                          else resolve_loop self subchart_sources todo
                                 (AList.update (last dependency_chart_location)
                                    (Dir ((k, c') # others)) d) root))))
      | Some (Dir es) \<Rightarrow> (Inl IsADirectoryError, root)
      | Some _ \<Rightarrow> (Inl ReadError, root))"

text \<open>
  What follows the first loop: one call of \<open>get_dependencies_with_helm\<close> when the batch
  is not empty, then the second loop when there is anything to look into. The union of
  the two sets is walked with the generated files first.
\<close>

definition fetch_and_resolve ::
  "fetcher \<Rightarrow> chart \<Rightarrow> chart list \<Rightarrow> metadata list \<Rightarrow> path list \<Rightarrow> bool \<Rightarrow> world
    \<Rightarrow> (error + bool) \<times> world" where
  "fetch_and_resolve helm self subchart_sources to_fetch_with_helm to_resolve updated w =
     (case (if to_fetch_with_helm \<noteq> []
            then get_dependencies_with_helm helm self to_fetch_with_helm w
            else (Inr [], w)) of
        (Inl e, w1) \<Rightarrow> (Inl e, w1)
      | (Inr generated_dependencies, w1) \<Rightarrow>
          (if generated_dependencies \<noteq> [] \<or> to_resolve \<noteq> [] then
             (case resolve_loop self subchart_sources
                     (map (\<lambda>gd. subcharts_dir self @ [gd]) generated_dependencies @ to_resolve)
                     [] (fs w1) of
                (Inl e, root) \<Rightarrow> (Inl e, w1\<lparr>fs := root\<rparr>)
              | (Inr u, root) \<Rightarrow> (Inr True, w1\<lparr>fs := root\<rparr>))
           else (Inr updated, w1)))"

text \<open>
  \<open>update_dependencies\<close> calls itself on every source it uses, and nothing stops a
  source from being used while it is itself being resolved. Python ends such a chain
  with a \<open>RecursionError\<close>; the first argument is the nesting depth still allowed.
  \<open>dependencies_loop\<close> is the first loop, over \<open>self.dependencies\<close>, carrying
  \<open>to_fetch_with_helm\<close>, \<open>to_resolve\<close> and \<open>updated\<close>.
\<close>

fun update_dependencies ::
    "nat \<Rightarrow> fetcher \<Rightarrow> chart \<Rightarrow> chart list \<Rightarrow> bool \<Rightarrow> world \<Rightarrow> (error + bool) \<times> world"
  and dependencies_loop ::
    "nat \<Rightarrow> fetcher \<Rightarrow> chart \<Rightarrow> chart list \<Rightarrow> bool \<Rightarrow> metadata list
      \<Rightarrow> metadata list \<times> path list \<times> bool \<Rightarrow> world
      \<Rightarrow> (error + metadata list \<times> path list \<times> bool) \<times> world"
where
  "update_dependencies 0 helm self subchart_sources force w = (Inl RecursionError, w)"
| "update_dependencies (Suc depth) helm self subchart_sources force w =
     (case (if dependencies self \<noteq> [] then makedirs (subcharts_dir self) (fs w)
            else Inr (fs w)) of
        Inl e \<Rightarrow> (Inl e, w)
      | Inr root \<Rightarrow>
          (case dependencies_loop depth helm self subchart_sources force (dependencies self)
                  ([], [], False) (w\<lparr>fs := root\<rparr>) of
             (Inl e, w1) \<Rightarrow> (Inl e, w1)
           | (Inr (to_fetch_with_helm, to_resolve, updated), w1) \<Rightarrow>
               fetch_and_resolve helm self subchart_sources
                 to_fetch_with_helm to_resolve updated w1))"
| "dependencies_loop depth helm self subchart_sources force []
     (to_fetch_with_helm, to_resolve, updated) w =
     (Inr (to_fetch_with_helm, to_resolve, updated), w)"
| "dependencies_loop depth helm self subchart_sources force (dependency # rest)
     (to_fetch_with_helm, to_resolve, updated) w =
     (case find_one_source (compute_name dependency) subchart_sources of
        Inl e \<Rightarrow> (Inl e, w)
      | Inr (Some src) \<Rightarrow>
          (case update_dependencies depth helm src subchart_sources force w of
             (Inl e, w1) \<Rightarrow> (Inl e, w1)
           | (Inr u, w1) \<Rightarrow>
               (case package (lookup (fs w1) (location src)) (subcharts_dir self) (fs w1) of
                  Inl e \<Rightarrow> (Inl e, w1)
                | Inr root \<Rightarrow>
                    dependencies_loop depth helm self subchart_sources force rest
                      (to_fetch_with_helm, to_resolve, True) (w1\<lparr>fs := root\<rparr>)))
      | Inr None \<Rightarrow>
          (if force then
             dependencies_loop depth helm self subchart_sources force rest
               (to_fetch_with_helm @ [dependency], to_resolve, updated) w
           else if exists (fs w) (subcharts_dir self @ [compute_name dependency @ ''.tgz'']) then
             dependencies_loop depth helm self subchart_sources force rest
               (to_fetch_with_helm,
                List.insert (subcharts_dir self @ [compute_name dependency @ ''.tgz'']) to_resolve,
                updated) w
           else
             dependencies_loop depth helm self subchart_sources force rest
               (to_fetch_with_helm @ [dependency], to_resolve, updated) w))"

subsection \<open>Substitution, as the specification describes it\<close>





subsection \<open>Concrete charts and file systems\<close>

text \<open>Shorthands for writing down manifests, and the chart object \<open>Chart\<close> builds from one.\<close>

definition dep :: "string \<Rightarrow> string \<Rightarrow> metadata" where
  "dep n v = \<lparr>yaml_name = n, yaml_version = v\<rparr>"

definition manifest_of :: "string \<Rightarrow> string \<Rightarrow> metadata list \<Rightarrow> manifest" where
  "manifest_of n v ds = \<lparr>yaml_name = n, yaml_version = v, yaml_dependencies = ds\<rparr>"

definition chart_at :: "path \<Rightarrow> manifest \<Rightarrow> chart" where
  "chart_at loc idx =
     \<lparr> location = loc, subcharts_dir = loc @ [''charts''], index_path = loc @ [''Chart.yaml''],
       index = idx, name = compute_name idx, dependencies = yaml_dependencies idx,
       dependencies_fullnames = map compute_name (yaml_dependencies idx) \<rparr>"

definition cleanup_listing :: "(string \<times> node) list" where
  "cleanup_listing = [(''x-1.0.tgz'', Blob ''x''), (''y-2.0.tgz'', Blob ''y'')]"

definition cleanup_root :: node where
  "cleanup_root =
     Dir [(''proj'', Dir [(''Chart.yaml'', Yaml (manifest_of ''app'' ''0.1'' [dep ''x'' ''1.0''])),
                          (''charts'', Dir cleanup_listing)])]"

definition cleanup_chart :: chart where
  "cleanup_chart = chart_at [''proj''] (manifest_of ''app'' ''0.1'' [dep ''x'' ''1.0''])"

definition foo_root :: node where
  "foo_root = Dir [(''foo'', Dir [(''Chart.yaml'', Yaml (manifest_of ''foo'' ''1.0'' []))])]"

definition foo_source :: chart where
  "foo_source = chart_at [''foo''] (manifest_of ''foo'' ''1.0'' [])"

definition foo_dev_dependency :: metadata where
  "foo_dev_dependency = dep ''foo-dev'' ''1.0''"

definition b_old :: node where
  "b_old = Dir [(''Chart.yaml'', Yaml (manifest_of ''b'' ''2.0'' [])), (''values.yaml'', Blob ''old'')]"

definition b_new :: node where
  "b_new = Dir [(''Chart.yaml'', Yaml (manifest_of ''b'' ''2.0'' [])), (''values.yaml'', Blob ''new'')]"




definition sources_root :: node where
  "sources_root = Dir [(''src'', Dir [(''b'', b_new)])]"

definition b_source :: chart where
  "b_source = chart_at [''src'', ''b''] (manifest_of ''b'' ''2.0'' [])"

definition helm_offline :: fetcher where
  "helm_offline chart_to_update = Inl HelmError"

definition x_archive :: node where
  "x_archive = Tgz [(''x'', Dir [(''Chart.yaml'', Yaml (manifest_of ''x'' ''1.0'' []))])]"

definition helm_serving_x :: fetcher where
  "helm_serving_x chart_to_update = Inr [(''x-1.0.tgz'', x_archive)]"




definition app_root :: "metadata list \<Rightarrow> (string \<times> node) list \<Rightarrow> node" where
  "app_root deps archives =
     Dir [(''proj'', Dir [(''Chart.yaml'', Yaml (manifest_of ''app'' ''0.1'' deps)),
                          (''charts'', Dir archives)]),
          (''src'', Dir [(''b'', b_new)])]"

definition app_chart :: "metadata list \<Rightarrow> chart" where
  "app_chart deps = chart_at [''proj''] (manifest_of ''app'' ''0.1'' deps)"

definition b_archive :: "node \<Rightarrow> node" where
  "b_archive b = Tgz [(''b'', b)]"




section \<open>Properties\<close>

subsection \<open>Paths\<close>

lemma lookup_append:
  "lookup n (p @ q) = (case lookup n p of None \<Rightarrow> None | Some m \<Rightarrow> lookup m q)"
proof (induction p arbitrary: n)
  case Nil
  show ?case by simp
next
  case (Cons k p)
  show ?case by (cases n) (simp_all add: Cons.IH split: option.splits)
qed

lemma modify_ok:
  "lookup root p = Some n \<Longrightarrow> f n = Inr n' \<Longrightarrow>
   \<exists>root'. modify p f root = Inr root' \<and> lookup root' p = Some n'"
proof (induction p arbitrary: root)
  case Nil
  then show ?case by simp
next
  case (Cons k p)
  then obtain es where root: "root = Dir es" by (cases root) auto
  with Cons.prems obtain c where c: "map_of es k = Some c" "lookup c p = Some n"
    by (auto split: option.splits)
  from Cons.IH[OF c(2) Cons.prems(2)] obtain c' where
    "modify p f c = Inr c'" "lookup c' p = Some n'" by blast
  then show ?case using root c by (simp add: update_conv')
qed

lemma modify_fail:
  "lookup root p = Some n \<Longrightarrow> f n = Inl e \<Longrightarrow> modify p f root = Inl e"
proof (induction p arbitrary: root)
  case Nil
  then show ?case by simp
next
  case (Cons k p)
  then obtain es where root: "root = Dir es" by (cases root) auto
  with Cons.prems obtain c where c: "map_of es k = Some c" "lookup c p = Some n"
    by (auto split: option.splits)
  from Cons.IH[OF c(2) Cons.prems(2)] show ?case using root c by simp
qed

lemma rm_entry:
  assumes "lookup root d = Some (Dir es)" and "map_of es k \<noteq> None"
  shows "\<exists>root'. rm (d @ [k]) root = Inr root' \<and> lookup root' d = Some (Dir (AList.delete k es))"
  using modify_ok[OF assms(1), of "unlink_entry k" "Dir (AList.delete k es)"] assms(2)
  by (simp add: rm_def)

lemma rm_missing_entry:
  assumes "lookup root d = Some (Dir es)" and "map_of es k = None"
  shows "rm (d @ [k]) root = Inl FileNotFoundError"
  using modify_fail[OF assms(1), of "unlink_entry k" FileNotFoundError] assms(2)
  by (simp add: rm_def)

lemma clean_loop_listing:
  "lookup root d = Some (Dir es) \<Longrightarrow> subcharts_dir self = d \<Longrightarrow>
   clean_loop self files root = (Inr (), root') \<Longrightarrow>
   lookup root' d = Some (Dir (filter (\<lambda>(k, n). \<not> (k \<in> set files \<and> stale self k)) es))"
proof (induction files arbitrary: root es)
  case Nil
  then show ?case by simp
next
  case (Cons fl files)
  show ?case
  proof (cases "stale self fl")
    case False
    with Cons.prems have "clean_loop self files root = (Inr (), root')" by simp
    from Cons.IH[OF Cons.prems(1,2) this] False show ?thesis
      by (auto intro!: filter_cong)
  next
    case True
    show ?thesis
    proof (cases "map_of es fl")
      case None
      from rm_missing_entry[OF Cons.prems(1) None] True Cons.prems show ?thesis by simp
    next
      case (Some n)
      then have "map_of es fl \<noteq> None" by simp
      from rm_entry[OF Cons.prems(1) this] obtain root1 where
        r1: "rm (d @ [fl]) root = Inr root1" "lookup root1 d = Some (Dir (AList.delete fl es))"
        by blast
      with True Cons.prems have "clean_loop self files root1 = (Inr (), root')" by simp
      from Cons.IH[OF r1(2) Cons.prems(2) this] True show ?thesis
        by (auto simp: AList.delete_eq filter_filter intro!: filter_cong)
    qed
  qed
qed

lemma clean_loop_total:
  "lookup root d = Some (Dir es) \<Longrightarrow> subcharts_dir self = d \<Longrightarrow>
   distinct files \<Longrightarrow> set files \<subseteq> fst ` set es \<Longrightarrow>
   fst (clean_loop self files root) = Inr ()"
proof (induction files arbitrary: root es)
  case Nil
  then show ?case by simp
next
  case (Cons fl files)
  show ?case
  proof (cases "stale self fl")
    case False
    with Cons show ?thesis by simp
  next
    case True
    from Cons.prems have "map_of es fl \<noteq> None"
      by (simp add: map_of_eq_None_iff)
    from rm_entry[OF Cons.prems(1) this] obtain root1 where
      r1: "rm (d @ [fl]) root = Inr root1" "lookup root1 d = Some (Dir (AList.delete fl es))"
      by blast
    have "set files \<subseteq> fst ` set (AList.delete fl es)"
      using Cons.prems(3,4) by (fastforce simp: AList.delete_eq image_iff)
    from Cons.IH[OF r1(2) Cons.prems(2) _ this] Cons.prems(3) True r1(1) Cons.prems(2)
    show ?thesis by simp
  qed
qed

lemma clean_loop_nothing:
  "\<forall>k \<in> set files. \<not> stale self k \<Longrightarrow> clean_loop self files root = (Inr (), root)"
  by (induction files) auto

lemma Chart_fields:
  "Chart root loc = Inr self \<Longrightarrow>
   self = chart_at loc (index self) \<and> lookup root (loc @ [''Chart.yaml'']) = Some (Yaml (index self))"
  by (auto simp: Chart_def chart_at_def split: option.splits node.splits)

subsection \<open>Matching\<close>

lemma find_one_source_cases:
  "find_one_source dependency subchart_sources =
     (case filter (\<lambda>chart. startswith dependency (name chart)) subchart_sources of
        [] \<Rightarrow> Inr None
      | [src] \<Rightarrow> Inr (Some src)
      | _ \<Rightarrow> Inl NotImplementedError)"
  by (simp add: find_one_source_def Let_def split: list.splits)

lemma Chart_name:
  "Chart root loc = Inr c \<Longrightarrow> name c = yaml_name (index c) @ ''-'' @ yaml_version (index c)"
  by (auto simp: Chart_def compute_name_def split: option.splits node.splits)

subsection \<open>Substitution\<close>





subsection \<open>The loops of \<open>update_dependencies\<close>\<close>



text \<open>What the first loop collects.\<close>

lemma dependencies_loop_collects:
  "dependencies_loop depth helm self srcs force deps (tf0, tr0, u0) w = (Inr (tf, tr, u), w') \<Longrightarrow>
   (u0 \<longrightarrow> u) \<and>
   ((\<exists>d \<in> set deps. find_one_source (compute_name d) srcs \<noteq> Inr None) \<longrightarrow> u) \<and>
   set tf \<subseteq> set tf0 \<union> {d \<in> set deps. find_one_source (compute_name d) srcs = Inr None} \<and>
   set tr \<subseteq> set tr0 \<union>
     (\<lambda>d. subcharts_dir self @ [compute_name d @ ''.tgz'']) `
        {d \<in> set deps. find_one_source (compute_name d) srcs = Inr None}"
proof (induction deps arbitrary: tf0 tr0 u0 w)
  case Nil
  then show ?case by simp
next
  case (Cons d deps)
  show ?case
  proof (cases "find_one_source (compute_name d) srcs")
    case (Inl e)
    with Cons.prems show ?thesis by simp
  next
    case (Inr found)
    show ?thesis
    proof (cases found)
      case (Some src)
      with Cons.prems Inr obtain w1 root where
        "dependencies_loop depth helm self srcs force deps (tf0, tr0, True) (w1\<lparr>fs := root\<rparr>) =
           (Inr (tf, tr, u), w')"
        by (auto split: sum.splits prod.splits)
      from Cons.IH[OF this] Inr Some show ?thesis by auto
    next
      case None
      consider (forced) "force" 
        | (present) "\<not> force" "exists (fs w) (subcharts_dir self @ [compute_name d @ ''.tgz''])"
        | (absent) "\<not> force" "\<not> exists (fs w) (subcharts_dir self @ [compute_name d @ ''.tgz''])"
        by blast
      then show ?thesis
      proof cases
        case forced
        with Cons.prems Inr None have
          "dependencies_loop depth helm self srcs force deps (tf0 @ [d], tr0, u0) w =
             (Inr (tf, tr, u), w')" by simp
        from Cons.IH[OF this] Inr None show ?thesis by auto
      next
        case present
        with Cons.prems Inr None have
          "dependencies_loop depth helm self srcs force deps
             (tf0, List.insert (subcharts_dir self @ [compute_name d @ ''.tgz'']) tr0, u0) w =
             (Inr (tf, tr, u), w')" by simp
        from Cons.IH[OF this] Inr None show ?thesis by auto
      next
        case absent
        with Cons.prems Inr None have
          "dependencies_loop depth helm self srcs force deps (tf0 @ [d], tr0, u0) w =
             (Inr (tf, tr, u), w')" by simp
        from Cons.IH[OF this] Inr None show ?thesis by auto
      qed
    qed
  qed
qed

lemma dependencies_loop_forced:
  "force \<Longrightarrow>
   dependencies_loop depth helm self srcs force deps (tf0, tr0, u0) w = (Inr (tf, tr, u), w') \<Longrightarrow>
   tf = tf0 @ filter (\<lambda>d. find_one_source (compute_name d) srcs = Inr None) deps \<and> tr = tr0"
proof (induction deps arbitrary: tf0 u0 w)
  case Nil
  then show ?case by simp
next
  case (Cons d deps)
  show ?case
  proof (cases "find_one_source (compute_name d) srcs")
    case (Inl e)
    with Cons.prems show ?thesis by simp
  next
    case (Inr found)
    show ?thesis
    proof (cases found)
      case (Some src)
      with Cons.prems Inr obtain w1 root where
        "dependencies_loop depth helm self srcs force deps (tf0, tr0, True) (w1\<lparr>fs := root\<rparr>) =
           (Inr (tf, tr, u), w')"
        by (auto split: sum.splits prod.splits)
      from Cons.IH[OF Cons.prems(1) this] Inr Some show ?thesis by auto
    next
      case None
      with Cons.prems Inr have
        "dependencies_loop depth helm self srcs force deps (tf0 @ [d], tr0, u0) w =
           (Inr (tf, tr, u), w')" by simp
      from Cons.IH[OF Cons.prems(1) this] Inr None show ?thesis by auto
    qed
  qed
qed

lemma dependencies_loop_no_source:
  "\<forall>d \<in> set deps. find_one_source (compute_name d) srcs = Inr None \<Longrightarrow>
   \<exists>st'. dependencies_loop depth helm self srcs force deps st w = (Inr st', w)"
proof (induction deps arbitrary: st)
  case Nil
  show ?case by (cases st) simp
next
  case (Cons d deps)
  obtain tf tr upd where st: "st = (tf, tr, upd)" by (cases st)
  from Cons.prems have d: "find_one_source (compute_name d) srcs = Inr None"
    and rest: "\<forall>d \<in> set deps. find_one_source (compute_name d) srcs = Inr None" by simp_all
  from Cons.IH[OF rest, of "(tf @ [d], tr, upd)"]
       Cons.IH[OF rest, of "(tf, List.insert (subcharts_dir self @ [compute_name d @ ''.tgz'']) tr, upd)"]
  show ?case unfolding st by (cases force) (auto simp: d)
qed

lemma modify_inv:
  "modify p f root = Inr root' \<Longrightarrow>
   \<exists>n n'. lookup root p = Some n \<and> f n = Inr n' \<and> lookup root' p = Some n'"
proof (induction p arbitrary: root root')
  case Nil
  then show ?case by simp
next
  case (Cons k p)
  then obtain es where root: "root = Dir es" by (cases root) auto
  with Cons.prems obtain c c' where
    c: "map_of es k = Some c" "modify p f c = Inr c'" "root' = Dir (AList.update k c' es)"
    by (auto split: option.splits sum.splits)
  from Cons.IH[OF c(2)] root c(1,3) show ?case by (auto simp: update_conv')
qed



lemma get_dependencies_with_helm_log:
  "helm_updates (snd (get_dependencies_with_helm helm self deps_to_update w)) =
     helm_updates w @ [(index self)\<lparr>yaml_dependencies := deps_to_update\<rparr>]"
  by (simp add: get_dependencies_with_helm_def Let_def split: sum.splits prod.splits)

lemma fetch_and_resolve_log:
  "helm_updates (snd (fetch_and_resolve helm self srcs to_fetch to_resolve updated w)) =
     helm_updates w @
       (if to_fetch = [] then [] else [(index self)\<lparr>yaml_dependencies := to_fetch\<rparr>])"
proof (cases "to_fetch = []")
  case True
  then show ?thesis
    by (simp add: fetch_and_resolve_def split: sum.splits prod.splits)
next
  case False
  obtain r w1 where g: "get_dependencies_with_helm helm self to_fetch w = (r, w1)"
    by (cases "get_dependencies_with_helm helm self to_fetch w")
  with get_dependencies_with_helm_log[of helm self to_fetch w]
  have "helm_updates w1 = helm_updates w @ [(index self)\<lparr>yaml_dependencies := to_fetch\<rparr>]"
    by simp
  with False g show ?thesis
    by (simp add: fetch_and_resolve_def split: sum.splits prod.splits)
qed

lemma fetch_and_resolve_updated:
  "fetch_and_resolve helm self srcs to_fetch to_resolve updated w = (Inr u, w') \<Longrightarrow>
   updated \<Longrightarrow> u"
  by (auto simp: fetch_and_resolve_def split: sum.splits prod.splits if_splits)

lemma update_dependencies_no_deps:
  "dependencies self = [] \<Longrightarrow>
   update_dependencies (Suc depth) helm self srcs force w = (Inr False, w)"
  by (simp add: fetch_and_resolve_def)

lemma update_dependencies_unfold:
  assumes "(if dependencies self \<noteq> [] then makedirs (subcharts_dir self) (fs w)
            else Inr (fs w)) = Inr root"
    and "dependencies_loop depth helm self srcs force (dependencies self) ([], [], False)
           (w\<lparr>fs := root\<rparr>) = (Inr (tf, tr, upd), w1)"
  shows "update_dependencies (Suc depth) helm self srcs force w =
           fetch_and_resolve helm self srcs tf tr upd w1"
  using assms by (simp del: dependencies_loop.simps)

lemma update_dependencies_inv:
  assumes "update_dependencies (Suc depth) helm self srcs force w = (Inr r, w')"
  shows "\<exists>root tf tr upd w1.
           (if dependencies self \<noteq> [] then makedirs (subcharts_dir self) (fs w)
            else Inr (fs w)) = Inr root \<and>
           dependencies_loop depth helm self srcs force (dependencies self) ([], [], False)
             (w\<lparr>fs := root\<rparr>) = (Inr (tf, tr, upd), w1) \<and>
           fetch_and_resolve helm self srcs tf tr upd w1 = (Inr r, w')"
proof -
  define made where "made = (if dependencies self \<noteq> [] then makedirs (subcharts_dir self) (fs w)
            else Inr (fs w))"
  from assms obtain root where root: "made = Inr root"
    unfolding made_def by (cases "if dependencies self \<noteq> [] then makedirs (subcharts_dir self) (fs w)
            else Inr (fs w)") (simp_all del: dependencies_loop.simps)
  obtain r1 w1 where l: "dependencies_loop depth helm self srcs force (dependencies self)
      ([], [], False) (w\<lparr>fs := root\<rparr>) = (r1, w1)"
    by (cases "dependencies_loop depth helm self srcs force (dependencies self)
      ([], [], False) (w\<lparr>fs := root\<rparr>)")
  from assms root l obtain tf tr upd where r1: "r1 = Inr (tf, tr, upd)"
    unfolding made_def by (cases r1) (auto simp del: dependencies_loop.simps)
  from assms root l r1 have "fetch_and_resolve helm self srcs tf tr upd w1 = (Inr r, w')"
    unfolding made_def by (simp del: dependencies_loop.simps)
  with root l r1 show ?thesis unfolding made_def by blast
qed

lemma update_dependencies_source_updated:
  assumes "update_dependencies (Suc depth) helm self srcs force w = (Inr r, w')"
    and "d \<in> set (dependencies self)"
    and "find_one_source (compute_name d) srcs = Inr (Some src)"
  shows "r"
proof -
  from update_dependencies_inv[OF assms(1)] obtain root tf tr upd w1 where
    l: "dependencies_loop depth helm self srcs force (dependencies self) ([], [], False)
             (w\<lparr>fs := root\<rparr>) = (Inr (tf, tr, upd), w1)"
    and f: "fetch_and_resolve helm self srcs tf tr upd w1 = (Inr r, w')" by blast
  from dependencies_loop_collects[OF l] assms(2,3) have upd by auto
  with fetch_and_resolve_updated[OF f] show ?thesis by simp
qed



lemma app_b_resolved:
  "update_dependencies (Suc (Suc 0)) helm_offline (app_chart [dep ''b'' ''2.0'']) [b_source] force
       \<lparr>fs = app_root [dep ''b'' ''2.0''] [(''b-2.0.tgz'', a)], helm_updates = []\<rparr> =
     (Inr True,
      \<lparr>fs = app_root [dep ''b'' ''2.0''] [(''b-2.0.tgz'', b_archive b_new)], helm_updates = []\<rparr>)"
proof -
  define w0 where "w0 = \<lparr>fs = app_root [dep ''b'' ''2.0''] [(''b-2.0.tgz'', a)], helm_updates = []\<rparr>"
  define w1 where "w1 = \<lparr>fs = app_root [dep ''b'' ''2.0''] [(''b-2.0.tgz'', b_archive b_new)],
                          helm_updates = []\<rparr>"
  have deps: "dependencies (app_chart [dep ''b'' ''2.0'']) = [dep ''b'' ''2.0'']"
    by (simp add: app_chart_def chart_at_def manifest_of_def)
  have f: "find_one_source (compute_name (dep ''b'' ''2.0'')) [b_source] = Inr (Some b_source)"
    by (simp add: find_one_source_def compute_name_def dep_def b_source_def chart_at_def
          manifest_of_def startswith_def)
  have inner: "update_dependencies (Suc 0) helm_offline b_source [b_source] force w0 = (Inr False, w0)"
    by (rule update_dependencies_no_deps) (simp add: b_source_def chart_at_def manifest_of_def)
  have pk: "package (lookup (fs w0) (location b_source))
              (subcharts_dir (app_chart [dep ''b'' ''2.0''])) (fs w0) = Inr (fs w1)"
    by (simp add: w0_def w1_def app_root_def app_chart_def chart_at_def b_source_def b_new_def
          b_archive_def manifest_of_def package_def helm_package_def put_def compute_name_def)
  have w: "w0\<lparr>fs := fs w1\<rparr> = w1" by (simp add: w0_def w1_def)
  have l: "dependencies_loop (Suc 0) helm_offline (app_chart [dep ''b'' ''2.0'']) [b_source] force
       (dependencies (app_chart [dep ''b'' ''2.0''])) ([], [], False) w0 = (Inr ([], [], True), w1)"
    by (simp add: deps f inner pk w del: update_dependencies.simps)
  have mk: "(if dependencies (app_chart [dep ''b'' ''2.0'']) \<noteq> []
             then makedirs (subcharts_dir (app_chart [dep ''b'' ''2.0''])) (fs w0)
             else Inr (fs w0)) = Inr (fs w0)"
    by (simp add: deps w0_def app_root_def app_chart_def chart_at_def)
  have l': "dependencies_loop (Suc 0) helm_offline (app_chart [dep ''b'' ''2.0'']) [b_source] force
       (dependencies (app_chart [dep ''b'' ''2.0''])) ([], [], False) (w0\<lparr>fs := fs w0\<rparr>) =
       (Inr ([], [], True), w1)"
    using l by (simp del: dependencies_loop.simps)
  have "update_dependencies (Suc (Suc 0)) helm_offline (app_chart [dep ''b'' ''2.0'']) [b_source]
          force w0 =
        fetch_and_resolve helm_offline (app_chart [dep ''b'' ''2.0'']) [b_source] [] [] True w1"
    by (rule update_dependencies_unfold[OF mk l'])
  then show ?thesis unfolding w0_def w1_def by (simp add: fetch_and_resolve_def del: update_dependencies.simps)
qed

subsection \<open>The second loop of \<open>update_dependencies\<close>\<close>


lemma modify_sibling:
  assumes "modify d f root = Inr root'" and "lookup root d = Some (Dir es)"
    and "f (Dir es) = Inr (Dir es')" and "map_of es' h = map_of es h"
  shows "lookup root' (d @ [h]) = lookup root (d @ [h])"
proof -
  from modify_inv[OF assms(1)] assms(2,3) have "lookup root' d = Some (Dir es')" by auto
  with assms(2,4) show ?thesis by (simp add: lookup_append)
qed

















section \<open>The claims of the specification\<close>

subsection \<open>Calling \<open>update_dependencies\<close> again\<close>

text \<open>
  Claim C1, as amended. On a chart that declares no dependency \<open>update_dependencies\<close>
  returns \<open>False\<close> and changes nothing, the first time and every time after. When a source
  matches a declared dependency, every call that returns returns \<open>True\<close>.
\<close>

theorem resolve_repeated:
  "(dependencies self = [] \<longrightarrow>
      update_dependencies (Suc depth) helm self subchart_sources force w = (Inr False, w)) \<and>
   (d \<in> set (dependencies self) \<and>
    find_one_source (compute_name d) subchart_sources = Inr (Some src) \<and>
    update_dependencies depth helm self subchart_sources force w = (Inr updated, w') \<longrightarrow>
      updated)"
proof (intro conjI impI)
  assume "dependencies self = []"
  then show "update_dependencies (Suc depth) helm self subchart_sources force w = (Inr False, w)"
    by (rule update_dependencies_no_deps)
next
  assume a: "d \<in> set (dependencies self) \<and>
    find_one_source (compute_name d) subchart_sources = Inr (Some src) \<and>
    update_dependencies depth helm self subchart_sources force w = (Inr updated, w')"
  then obtain n where "depth = Suc n" by (cases depth) auto
  with a update_dependencies_source_updated[of n helm self subchart_sources force w updated w' d src]
  show updated by simp
qed

theorem resolve_repeated_witness:
  "dependencies b_source = [] \<and>
   update_dependencies (Suc 0) helm_offline b_source [b_source] False
       \<lparr>fs = sources_root, helm_updates = []\<rparr> =
     (Inr False, \<lparr>fs = sources_root, helm_updates = []\<rparr>) \<and>
   dep ''b'' ''2.0'' \<in> set (dependencies (app_chart [dep ''b'' ''2.0''])) \<and>
   find_one_source (compute_name (dep ''b'' ''2.0'')) [b_source] = Inr (Some b_source) \<and>
   update_dependencies (Suc (Suc 0)) helm_offline (app_chart [dep ''b'' ''2.0'']) [b_source] False
       \<lparr>fs = app_root [dep ''b'' ''2.0''] [(''b-2.0.tgz'', b_archive b_old)], helm_updates = []\<rparr> =
     (Inr True,
      \<lparr>fs = app_root [dep ''b'' ''2.0''] [(''b-2.0.tgz'', b_archive b_new)], helm_updates = []\<rparr>)"
proof -
  have d: "dependencies b_source = []"
    by (simp add: b_source_def chart_at_def manifest_of_def)
  have m: "dep ''b'' ''2.0'' \<in> set (dependencies (app_chart [dep ''b'' ''2.0'']))"
    by (simp add: app_chart_def chart_at_def manifest_of_def)
  have f: "find_one_source (compute_name (dep ''b'' ''2.0'')) [b_source] = Inr (Some b_source)"
    by (simp add: find_one_source_def compute_name_def dep_def b_source_def chart_at_def
          manifest_of_def startswith_def)
  obtain r w' where
    run: "update_dependencies (Suc (Suc 0)) helm_offline (app_chart [dep ''b'' ''2.0''])
            [b_source] False
            \<lparr>fs = app_root [dep ''b'' ''2.0''] [(''b-2.0.tgz'', b_archive b_old)],
               helm_updates = []\<rparr> = (Inr r, w')"
    and w': "w' = \<lparr>fs = app_root [dep ''b'' ''2.0''] [(''b-2.0.tgz'', b_archive b_new)],
                    helm_updates = []\<rparr>"
    using app_b_resolved[of False "b_archive b_old"] by blast
  from resolve_repeated[where self = "app_chart [dep ''b'' ''2.0'']" and depth = "Suc (Suc 0)"
         and helm = helm_offline and subchart_sources = "[b_source]" and force = False
         and d = "dep ''b'' ''2.0''" and src = b_source and updated = r and w' = w'
         and w = "\<lparr>fs = app_root [dep ''b'' ''2.0''] [(''b-2.0.tgz'', b_archive b_old)],
                    helm_updates = []\<rparr>"] m f run
  have r: r by blast
  from resolve_repeated[where self = b_source and depth = 0 and helm = helm_offline
         and subchart_sources = "[b_source]" and force = False
         and w = "\<lparr>fs = sources_root, helm_updates = []\<rparr>"] d
  have q: "update_dependencies (Suc 0) helm_offline b_source [b_source] False
             \<lparr>fs = sources_root, helm_updates = []\<rparr> =
           (Inr False, \<lparr>fs = sources_root, helm_updates = []\<rparr>)"
    by blast
  from d q m f run r w' show ?thesis by simp
qed

text \<open>
  Claim C1 as the specification states it fails: the second of two identical calls, on the
  state the first one left and that it leaves unchanged itself, returns \<open>True\<close>.
\<close>

theorem resolve_repeated_counterexample:
  "update_dependencies (Suc (Suc 0)) helm_offline (app_chart [dep ''b'' ''2.0'']) [b_source] False
       \<lparr>fs = app_root [dep ''b'' ''2.0''] [(''b-2.0.tgz'', b_archive b_old)], helm_updates = []\<rparr> =
     (Inr True,
      \<lparr>fs = app_root [dep ''b'' ''2.0''] [(''b-2.0.tgz'', b_archive b_new)], helm_updates = []\<rparr>) \<and>
   update_dependencies (Suc (Suc 0)) helm_offline (app_chart [dep ''b'' ''2.0'']) [b_source] False
       \<lparr>fs = app_root [dep ''b'' ''2.0''] [(''b-2.0.tgz'', b_archive b_new)], helm_updates = []\<rparr> =
     (Inr True,
      \<lparr>fs = app_root [dep ''b'' ''2.0''] [(''b-2.0.tgz'', b_archive b_new)], helm_updates = []\<rparr>)"
  using app_b_resolved[of False "b_archive b_old"] app_b_resolved[of False "b_archive b_new"]
  by blast

subsection \<open>Matching a dependency to a source\<close>

text \<open>
  Claim C2, as amended. The \<open>name\<close> of a chart object is \<open>compute_name\<close> of its
  manifest, that is \<open>name-version\<close>, and this is what \<open>find_one_source\<close> compares with.
  For sources that are chart objects, \<open>find_one_source\<close> returns the source \<open>s\<close> for the
  dependency \<open>d\<close> exactly when \<open>s\<close> is the one source whose \<open>name-version\<close> is a
  prefix of the \<open>name-version\<close> of \<open>d\<close>.
\<close>

theorem find_one_source_matches_full_name:
  assumes "\<forall>s \<in> set subchart_sources. \<exists>root loc. Chart root loc = Inr s"
  shows "(find_one_source (compute_name d) subchart_sources = Inr (Some s)) =
         (filter (\<lambda>c. startswith (compute_name d)
                        (yaml_name (index c) @ ''-'' @ yaml_version (index c)))
             subchart_sources = [s])"
proof -
  have "name c = yaml_name (index c) @ ''-'' @ yaml_version (index c)"
    if "c \<in> set subchart_sources" for c
    using assms that Chart_name by blast
  then have eq: "filter (\<lambda>c. startswith (compute_name d) (name c)) subchart_sources =
             filter (\<lambda>c. startswith (compute_name d)
                        (yaml_name (index c) @ ''-'' @ yaml_version (index c))) subchart_sources"
    by (intro filter_cong) auto
  show ?thesis
    unfolding find_one_source_cases eq by (simp split: list.splits)
qed

text \<open>
  A dependency \<open>foo\<close> at version \<open>1.0-dev\<close> is matched by the source \<open>foo\<close> at version
  \<open>1.0\<close>.
\<close>

theorem find_one_source_matches_full_name_witness:
  "Chart foo_root [''foo''] = Inr foo_source \<and>
   find_one_source (compute_name (dep ''foo'' ''1.0-dev'')) [foo_source] = Inr (Some foo_source)"
proof -
  have c: "Chart foo_root [''foo''] = Inr foo_source"
    by (simp add: Chart_def foo_root_def foo_source_def chart_at_def)
  then have h: "\<forall>s \<in> set [foo_source]. \<exists>root loc. Chart root loc = Inr s" by auto
  from find_one_source_matches_full_name[OF h, of "dep ''foo'' ''1.0-dev''" foo_source] c
  show ?thesis
    by (simp add: foo_source_def chart_at_def manifest_of_def dep_def compute_name_def
          startswith_def)
qed

text \<open>
  Claim C2 as the specification states it, with the prefix taken of the manifest's \<open>name\<close>
  field alone, fails: the dependency \<open>foo-dev\<close> at version \<open>1.0\<close> starts with the
  manifest name \<open>foo\<close> of the source, and \<open>find_one_source\<close> finds no source for it.
\<close>

theorem find_one_source_unversioned_counterexample:
  "Chart foo_root [''foo''] = Inr foo_source \<and>
   yaml_name (index foo_source) = ''foo'' \<and>
   startswith (compute_name foo_dev_dependency) (yaml_name (index foo_source)) \<and>
   find_one_source (compute_name foo_dev_dependency) [foo_source] = Inr None"
  by (simp add: Chart_def foo_root_def foo_source_def chart_at_def manifest_of_def
        foo_dev_dependency_def dep_def compute_name_def startswith_def find_one_source_def)

subsection \<open>Resolving the declared dependencies\<close>





text \<open>
  Claim C5. Let the first loop of a call end with the batch \<open>to_fetch_with_helm\<close>. The
  call then runs \<open>helm dependency update\<close> once, on the manifest that lists the whole
  batch, when the batch is not empty, and not at all when it is empty: these are the only
  runs the call adds to those of the first loop, and the first loop adds none when no
  source matches a dependency (a source that matches is resolved by a call of its own).
  With \<open>force\<close> the batch is every dependency that has no source, in order, whether or
  not its archive is there.
\<close>

theorem force_fetches_in_one_batch:
  assumes "(if dependencies self \<noteq> [] then makedirs (subcharts_dir self) (fs w)
            else Inr (fs w)) = Inr root"
    and "dependencies_loop depth helm self subchart_sources force (dependencies self)
           ([], [], False) (w\<lparr>fs := root\<rparr>) = (Inr (to_fetch_with_helm, to_resolve, updated), w1)"
  shows "helm_updates (snd (update_dependencies (Suc depth) helm self subchart_sources force w)) =
           helm_updates w1 @
             (if to_fetch_with_helm = [] then []
              else [(index self)\<lparr>yaml_dependencies := to_fetch_with_helm\<rparr>]) \<and>
         (force \<longrightarrow>
            to_fetch_with_helm =
              filter (\<lambda>d. find_one_source (compute_name d) subchart_sources = Inr None)
                (dependencies self)) \<and>
         ((\<forall>d \<in> set (dependencies self).
              find_one_source (compute_name d) subchart_sources = Inr None) \<longrightarrow>
            helm_updates w1 = helm_updates w)"
proof (intro conjI impI)
  show "helm_updates (snd (update_dependencies (Suc depth) helm self subchart_sources force w)) =
           helm_updates w1 @
             (if to_fetch_with_helm = [] then []
              else [(index self)\<lparr>yaml_dependencies := to_fetch_with_helm\<rparr>])"
    unfolding update_dependencies_unfold[OF assms] by (rule fetch_and_resolve_log)
next
  assume force
  from dependencies_loop_forced[OF this assms(2)]
  show "to_fetch_with_helm =
              filter (\<lambda>d. find_one_source (compute_name d) subchart_sources = Inr None)
                (dependencies self)" by simp
next
  assume "\<forall>d \<in> set (dependencies self).
              find_one_source (compute_name d) subchart_sources = Inr None"
  from dependencies_loop_no_source[OF this, of depth helm self force "([], [], False)"
      "w\<lparr>fs := root\<rparr>"] assms(2)
  show "helm_updates w1 = helm_updates w" by auto
qed

text \<open>
  With \<open>force\<close>, the dependency \<open>x-1.0\<close>, whose archive is present, is fetched, in the one
  run of helm.
\<close>

theorem force_fetches_in_one_batch_witness:
  "exists (app_root [dep ''x'' ''1.0''] [(''x-1.0.tgz'', x_archive)])
     (subcharts_dir (app_chart [dep ''x'' ''1.0'']) @ [''x-1.0.tgz'']) \<and>
   dependencies_loop 0 helm_serving_x (app_chart [dep ''x'' ''1.0'']) [b_source] True
       (dependencies (app_chart [dep ''x'' ''1.0''])) ([], [], False)
       \<lparr>fs = app_root [dep ''x'' ''1.0''] [(''x-1.0.tgz'', x_archive)], helm_updates = []\<rparr> =
     (Inr ([dep ''x'' ''1.0''], [], False),
      \<lparr>fs = app_root [dep ''x'' ''1.0''] [(''x-1.0.tgz'', x_archive)], helm_updates = []\<rparr>) \<and>
   helm_updates (snd (update_dependencies (Suc 0) helm_serving_x (app_chart [dep ''x'' ''1.0''])
       [b_source] True
       \<lparr>fs = app_root [dep ''x'' ''1.0''] [(''x-1.0.tgz'', x_archive)], helm_updates = []\<rparr>)) =
     [manifest_of ''app'' ''0.1'' [dep ''x'' ''1.0'']]"
proof -
  define w0 where "w0 = \<lparr>fs = app_root [dep ''x'' ''1.0''] [(''x-1.0.tgz'', x_archive)],
                          helm_updates = []\<rparr>"
  have deps: "dependencies (app_chart [dep ''x'' ''1.0'']) = [dep ''x'' ''1.0'']"
    by (simp add: app_chart_def chart_at_def manifest_of_def)
  have e: "exists (app_root [dep ''x'' ''1.0''] [(''x-1.0.tgz'', x_archive)])
     (subcharts_dir (app_chart [dep ''x'' ''1.0'']) @ [''x-1.0.tgz''])"
    by (simp add: app_root_def app_chart_def chart_at_def exists_def)
  have mk: "makedirs (subcharts_dir (app_chart [dep ''x'' ''1.0'']))
              (app_root [dep ''x'' ''1.0''] [(''x-1.0.tgz'', x_archive)]) =
            Inr (app_root [dep ''x'' ''1.0''] [(''x-1.0.tgz'', x_archive)])"
    by (simp add: app_root_def app_chart_def chart_at_def)
  have h1: "(if dependencies (app_chart [dep ''x'' ''1.0'']) \<noteq> []
             then makedirs (subcharts_dir (app_chart [dep ''x'' ''1.0''])) (fs w0)
             else Inr (fs w0)) =
            Inr (app_root [dep ''x'' ''1.0''] [(''x-1.0.tgz'', x_archive)])"
    by (simp add: deps mk w0_def)
  have nomatch: "find_one_source (compute_name (dep ''x'' ''1.0'')) [b_source] = Inr None"
    by (simp add: find_one_source_def compute_name_def dep_def b_source_def chart_at_def
          manifest_of_def startswith_def)
  have l: "dependencies_loop 0 helm_serving_x (app_chart [dep ''x'' ''1.0'']) [b_source] True
       (dependencies (app_chart [dep ''x'' ''1.0''])) ([], [], False) w0 =
     (Inr ([dep ''x'' ''1.0''], [], False), w0)"
    by (simp add: deps nomatch)
  have h2: "dependencies_loop 0 helm_serving_x (app_chart [dep ''x'' ''1.0'']) [b_source] True
       (dependencies (app_chart [dep ''x'' ''1.0''])) ([], [], False)
       (w0\<lparr>fs := app_root [dep ''x'' ''1.0''] [(''x-1.0.tgz'', x_archive)]\<rparr>) =
     (Inr ([dep ''x'' ''1.0''], [], False), w0)"
    using l by (simp add: w0_def del: dependencies_loop.simps)
  have i: "(index (app_chart [dep ''x'' ''1.0'']))\<lparr>yaml_dependencies := [dep ''x'' ''1.0'']\<rparr> =
           manifest_of ''app'' ''0.1'' [dep ''x'' ''1.0'']"
    by (simp add: app_chart_def chart_at_def manifest_of_def)
  have t: "helm_updates (snd (update_dependencies (Suc 0) helm_serving_x
              (app_chart [dep ''x'' ''1.0'']) [b_source] True w0)) =
           [manifest_of ''app'' ''0.1'' [dep ''x'' ''1.0'']]"
    unfolding conjunct1[OF force_fetches_in_one_batch[OF h1 h2]] i
    by (simp add: w0_def)
  from e l t show ?thesis unfolding w0_def by blast
qed

subsection \<open>Cleaning\<close>

text \<open>
  Claim C6. When the subcharts directory of a chart exists, \<open>clean_dependencies\<close> succeeds
  and leaves in it exactly the entries that are not archives no declared dependency
  claims: an entry whose name ends in \<open>.tgz\<close> is removed exactly when
  \<open>match_to_dependencies\<close> of the name without the extension is empty, and every other
  entry stays as it is. (The names in a directory listing are distinct.)
\<close>

theorem clean_removes_exactly_unclaimed:
  assumes "lookup root (subcharts_dir self) = Some (Dir es)" and "distinct (map fst es)"
  shows "fst (clean_dependencies self root) = Inr () \<and>
         lookup (snd (clean_dependencies self root)) (subcharts_dir self) =
           Some (Dir (filter (\<lambda>(file, content).
                   \<not> (endswith file ''.tgz'' \<and>
                      match_to_dependencies self (take (length file - length ''.tgz'') file) = []))
                 es))"
proof -
  have it: "iterdir root (subcharts_dir self) = Inr (map fst es)"
    using assms(1) by (simp add: iterdir_def)
  have ok: "fst (clean_loop self (map fst es) root) = Inr ()"
    using clean_loop_total[OF assms(1) refl assms(2)] by simp
  then obtain root' where r: "clean_loop self (map fst es) root = (Inr (), root')"
    by (cases "clean_loop self (map fst es) root") auto
  have "lookup root' (subcharts_dir self) =
          Some (Dir (filter (\<lambda>(k, n). \<not> (k \<in> set (map fst es) \<and> stale self k)) es))"
    by (rule clean_loop_listing[OF assms(1) refl r])
  also have "filter (\<lambda>(k, n). \<not> (k \<in> set (map fst es) \<and> stale self k)) es =
             filter (\<lambda>(file, content).
                   \<not> (endswith file ''.tgz'' \<and>
                      match_to_dependencies self (take (length file - length ''.tgz'') file) = []))
                 es"
    by (rule filter_cong) (auto simp: stale_def image_iff)
  finally show ?thesis using it r by (simp add: clean_dependencies_def)
qed

text \<open>
  With the archives \<open>x-1.0.tgz\<close> and \<open>y-2.0.tgz\<close> and the single dependency
  \<open>x-1.0\<close>, the second archive goes and the first stays.
\<close>

theorem clean_removes_exactly_unclaimed_witness:
  "lookup cleanup_root (subcharts_dir cleanup_chart) = Some (Dir cleanup_listing) \<and>
   distinct (map fst cleanup_listing) \<and>
   match_to_dependencies cleanup_chart ''x-1.0'' = [''x-1.0''] \<and>
   match_to_dependencies cleanup_chart ''y-2.0'' = [] \<and>
   fst (clean_dependencies cleanup_chart cleanup_root) = Inr () \<and>
   lookup (snd (clean_dependencies cleanup_chart cleanup_root)) (subcharts_dir cleanup_chart) =
     Some (Dir [(''x-1.0.tgz'', Blob ''x'')])"
proof -
  have h1: "lookup cleanup_root (subcharts_dir cleanup_chart) = Some (Dir cleanup_listing)"
    by (simp add: cleanup_root_def cleanup_chart_def chart_at_def)
  have h2: "distinct (map fst cleanup_listing)"
    by (simp add: cleanup_listing_def)
  have m: "match_to_dependencies cleanup_chart ''x-1.0'' = [''x-1.0'']"
          "match_to_dependencies cleanup_chart ''y-2.0'' = []"
    by (simp_all add: match_to_dependencies_def cleanup_chart_def chart_at_def manifest_of_def
          dep_def compute_name_def startswith_def)
  show ?thesis
    using clean_removes_exactly_unclaimed[OF h1 h2] h1 h2 m
    by (simp add: cleanup_listing_def endswith_def suffix_def)
qed

text \<open>
  Claim C7. Cleaning is idempotent: on a file system left by a successful
  \<open>clean_dependencies\<close>, running it again succeeds and changes nothing.
\<close>

theorem clean_twice_same_listing:
  assumes "clean_dependencies self root = (Inr (), root')"
  shows "clean_dependencies self root' = (Inr (), root')"
proof -
  from assms obtain es where es: "lookup root (subcharts_dir self) = Some (Dir es)"
    by (auto simp: clean_dependencies_def iterdir_def split: option.splits node.splits)
  with assms have r: "clean_loop self (map fst es) root = (Inr (), root')"
    by (simp add: clean_dependencies_def iterdir_def)
  have l: "lookup root' (subcharts_dir self) =
          Some (Dir (filter (\<lambda>(k, n). \<not> (k \<in> set (map fst es) \<and> stale self k)) es))"
    by (rule clean_loop_listing[OF es refl r])
  have "\<forall>k \<in> set (map fst (filter (\<lambda>(k, n). \<not> (k \<in> set (map fst es) \<and> stale self k)) es)).
          \<not> stale self k"
    by (auto simp: image_iff)
  from clean_loop_nothing[OF this] l show ?thesis
    by (simp add: clean_dependencies_def iterdir_def)
qed

theorem clean_twice_same_listing_witness:
  "clean_dependencies cleanup_chart cleanup_root =
     (Inr (), Dir [(''proj'', Dir [(''Chart.yaml'', Yaml (manifest_of ''app'' ''0.1'' [dep ''x'' ''1.0''])),
                                   (''charts'', Dir [(''x-1.0.tgz'', Blob ''x'')])])]) \<and>
   clean_dependencies cleanup_chart
     (Dir [(''proj'', Dir [(''Chart.yaml'', Yaml (manifest_of ''app'' ''0.1'' [dep ''x'' ''1.0''])),
                           (''charts'', Dir [(''x-1.0.tgz'', Blob ''x'')])])]) =
     (Inr (), Dir [(''proj'', Dir [(''Chart.yaml'', Yaml (manifest_of ''app'' ''0.1'' [dep ''x'' ''1.0''])),
                                   (''charts'', Dir [(''x-1.0.tgz'', Blob ''x'')])])])"
proof -
  have h: "clean_dependencies cleanup_chart cleanup_root =
     (Inr (), Dir [(''proj'', Dir [(''Chart.yaml'', Yaml (manifest_of ''app'' ''0.1'' [dep ''x'' ''1.0''])),
                                   (''charts'', Dir [(''x-1.0.tgz'', Blob ''x'')])])])"
    by (simp add: clean_dependencies_def iterdir_def cleanup_root_def cleanup_chart_def
          chart_at_def cleanup_listing_def stale_def match_to_dependencies_def manifest_of_def
          dep_def compute_name_def startswith_def endswith_def suffix_def rm_def)
  from clean_twice_same_listing[OF h] h show ?thesis by simp
qed

subsection \<open>Substitution inside an archived dependency\<close>



subsection \<open>Substitution in an extracted chart\<close>



subsection \<open>A chart without a subcharts directory\<close>

text \<open>
  Claim C10. For a chart whose subcharts directory does not exist, \<open>clean_dependencies\<close>
  raises (\<open>iterdir\<close> on a missing directory) and leaves the file system as it was, while
  \<open>resolve_subcharts\<close> on the directory of the same chart returns \<open>False\<close> and changes
  nothing.
\<close>

theorem clean_raises_without_subcharts_dir:
  assumes "lookup root (location self) = Some chart_dir"
    and "subcharts_dir self = location self @ [''charts'']"
    and "lookup root (subcharts_dir self) = None"
  shows "clean_dependencies self root = (Inl FileNotFoundError, root) \<and>
         resolve_subcharts root subchart_sources chart_dir = (Inr False, chart_dir)"
proof -
  have c: "clean_dependencies self root = (Inl FileNotFoundError, root)"
    using assms(3) by (simp add: clean_dependencies_def iterdir_def)
  from assms have "lookup chart_dir [''charts''] = None"
    by (simp add: lookup_append)
  then have "resolve_subcharts root subchart_sources chart_dir = (Inr False, chart_dir)"
    by (cases chart_dir) (auto split: option.splits)
  with c show ?thesis by simp
qed

theorem clean_raises_without_subcharts_dir_witness:
  "Chart foo_root [''foo''] = Inr foo_source \<and>
   lookup foo_root (location foo_source) =
     Some (Dir [(''Chart.yaml'', Yaml (manifest_of ''foo'' ''1.0'' []))]) \<and>
   subcharts_dir foo_source = location foo_source @ [''charts''] \<and>
   lookup foo_root (subcharts_dir foo_source) = None \<and>
   clean_dependencies foo_source foo_root = (Inl FileNotFoundError, foo_root) \<and>
   resolve_subcharts foo_root []
       (Dir [(''Chart.yaml'', Yaml (manifest_of ''foo'' ''1.0'' []))]) =
     (Inr False, Dir [(''Chart.yaml'', Yaml (manifest_of ''foo'' ''1.0'' []))])"
proof -
  have h0: "Chart foo_root [''foo''] = Inr foo_source"
    by (simp add: Chart_def foo_root_def foo_source_def chart_at_def)
  have h1: "lookup foo_root (location foo_source) =
              Some (Dir [(''Chart.yaml'', Yaml (manifest_of ''foo'' ''1.0'' []))])"
    by (simp add: foo_root_def foo_source_def chart_at_def)
  have h2: "subcharts_dir foo_source = location foo_source @ [''charts'']"
    by (simp add: foo_source_def chart_at_def)
  have h3: "lookup foo_root (subcharts_dir foo_source) = None"
    by (simp add: foo_root_def foo_source_def chart_at_def)
  from clean_raises_without_subcharts_dir[OF h1 h2 h3, of "[]"] h0 h1 h2 h3
  show ?thesis by simp
qed

end
